theory Spec2Isabelle
  imports Complex_Main "HOL-Library.Sublist" "HOL-Library.Multiset"
begin

section \<open>Python values\<close>

text \<open>
  The script works on decoded JSON: \<open>None\<close>, booleans, integers, floats, strings, lists
  and dictionaries. Floats are modelled by their real value (the program only compares
  them with \<open>0\<close>, \<open>1\<close> and \<open>2\<close>; non-finite floats are left out). Strings are lists of
  code points below 256. A dictionary is an association list in insertion order whose
  keys are pairwise distinct, as the JSON decoder produces them.
\<close>

datatype json =
    JNull
  | JBool bool
  | JInt int
  | JFloat real
  | JStr string
  | JArr "json list"
  | JObj "(string \<times> json) list"

datatype exn = IndexError | KeyError | TypeError | ValidationError

text \<open>Sequencing of computations that may raise.\<close>

definition bind :: "exn + 'a \<Rightarrow> ('a \<Rightarrow> exn + 'b) \<Rightarrow> exn + 'b" where
  "bind m f = (case m of Inl e \<Rightarrow> Inl e | Inr x \<Rightarrow> f x)"

subsection \<open>Indexing, length, iteration\<close>

text \<open>\<open>x['key']\<close>: only a dictionary can be indexed by a string.\<close>

definition getitem :: "json \<Rightarrow> string \<Rightarrow> exn + json" where
  "getitem x k =
     (case x of
        JObj kvs \<Rightarrow> (case map_of kvs k of None \<Rightarrow> Inl KeyError | Some v \<Rightarrow> Inr v)
      | _ \<Rightarrow> Inl TypeError)"

text \<open>
  \<open>x[i]\<close> for a literal \<open>i \<ge> 0\<close>: lists and strings are positional, a dictionary has
  no integer key, anything else is not subscriptable.
\<close>

definition getindex :: "json \<Rightarrow> nat \<Rightarrow> exn + json" where
  "getindex x i =
     (case x of
        JArr xs \<Rightarrow> (if i < length xs then Inr (xs ! i) else Inl IndexError)
      | JStr s \<Rightarrow> (if i < length s then Inr (JStr [s ! i]) else Inl IndexError)
      | JObj kvs \<Rightarrow> Inl KeyError
      | _ \<Rightarrow> Inl TypeError)"

definition py_len :: "json \<Rightarrow> exn + nat" where
  "py_len x =
     (case x of
        JArr xs \<Rightarrow> Inr (length xs)
      | JStr s \<Rightarrow> Inr (length s)
      | JObj kvs \<Rightarrow> Inr (length kvs)
      | _ \<Rightarrow> Inl TypeError)"

text \<open>\<open>for c in x\<close>: a dictionary yields its keys, a string its characters.\<close>

definition py_iter :: "json \<Rightarrow> exn + json list" where
  "py_iter x =
     (case x of
        JArr xs \<Rightarrow> Inr xs
      | JStr s \<Rightarrow> Inr (map (\<lambda>c. JStr [c]) s)
      | JObj kvs \<Rightarrow> Inr (map (\<lambda>kv. JStr (fst kv)) kvs)
      | _ \<Rightarrow> Inl TypeError)"

subsection \<open>Equality and membership\<close>

text \<open>\<open>bool\<close> is a subclass of \<open>int\<close>; the three numeric types compare by value.\<close>

fun num_of :: "json \<Rightarrow> real option" where
  "num_of (JBool b) = Some (if b then 1 else 0)"
| "num_of (JInt i) = Some (of_int i)"
| "num_of (JFloat r) = Some r"
| "num_of _ = None"

text \<open>\<open>a == b\<close>. Lists compare element by element, dictionaries item by item.\<close>

fun py_eq :: "json \<Rightarrow> json \<Rightarrow> bool" where
  "py_eq JNull b = (b = JNull)"
| "py_eq (JStr a) b = (b = JStr a)"
| "py_eq (JArr xs) b = (case b of JArr ys \<Rightarrow> list_all2 py_eq xs ys | _ \<Rightarrow> False)"
| "py_eq (JObj xs) b =
     (case b of
        JObj ys \<Rightarrow> length xs = length ys \<and>
          list_all (\<lambda>(k, v). case map_of ys k of None \<Rightarrow> False | Some v' \<Rightarrow> py_eq v v') xs
      | _ \<Rightarrow> False)"
| "py_eq a b = (case num_of b of None \<Rightarrow> False | Some y \<Rightarrow> num_of a = Some y)"

text \<open>\<open>x in xs\<close> for a Python list \<open>xs\<close>.\<close>

definition py_in_list :: "json \<Rightarrow> json list \<Rightarrow> bool" where
  "py_in_list x xs = list_ex (\<lambda>y. py_eq x y) xs"

subsection \<open>Substring test\<close>

text \<open>Python's \<open>needle in hay\<close> on two strings: \<open>needle\<close> occurs contiguously.\<close>

fun str_contains :: "string \<Rightarrow> string \<Rightarrow> bool" where
  "str_contains needle [] = (needle = [])"
| "str_contains needle (c # cs) = (prefix needle (c # cs) \<or> str_contains needle cs)"

text \<open>
  \<open>'key' in x\<close>: key membership in a dictionary, element membership in a list,
  substring in a string.
\<close>

definition py_contains :: "string \<Rightarrow> json \<Rightarrow> exn + bool" where
  "py_contains k x =
     (case x of
        JObj kvs \<Rightarrow> Inr (k \<in> set (map fst kvs))
      | JArr xs \<Rightarrow> Inr (py_in_list (JStr k) xs)
      | JStr s \<Rightarrow> Inr (str_contains k s)
      | _ \<Rightarrow> Inl TypeError)"

subsection \<open>\<open>str\<close> and \<open>repr\<close>\<close>

definition digit_char :: "nat \<Rightarrow> char" where
  "digit_char d = char_of (48 + d)"

fun digits :: "nat \<Rightarrow> string" where
  "digits n = (if n < 10 then [digit_char n] else digits (n div 10) @ [digit_char (n mod 10)])"

declare digits.simps [simp del]

definition str_int :: "int \<Rightarrow> string" where
  "str_int i = (if i < 0 then CHR ''-'' # digits (nat (- i)) else digits (nat i))"

fun join :: "string \<Rightarrow> string list \<Rightarrow> string" where
  "join sep [] = []"
| "join sep [x] = x"
| "join sep (x # y # ys) = x @ sep @ join sep (y # ys)"

definition hex_char :: "nat \<Rightarrow> char" where
  "hex_char d = (if d < 10 then char_of (48 + d) else char_of (87 + d))"

definition printable :: "char \<Rightarrow> bool" where
  "printable c =
     (let n = of_char c :: nat in (32 \<le> n \<and> n < 127) \<or> (161 \<le> n \<and> n \<noteq> 173))"

text \<open>
  \<open>repr\<close> of a string: single quotes unless the string has a single quote and no
  double quote; the quote, the backslash and the unprintable characters are escaped.
\<close>

definition repr_char :: "char \<Rightarrow> char \<Rightarrow> string" where
  "repr_char quote c =
     (if c = quote \<or> c = CHR 0x5C then [CHR 0x5C, c]
      else if c = CHR 0x09 then [CHR 0x5C, CHR ''t'']
      else if c = CHR 0x0A then [CHR 0x5C, CHR ''n'']
      else if c = CHR 0x0D then [CHR 0x5C, CHR ''r'']
      else if printable c then [c]
      else [CHR 0x5C, CHR ''x'', hex_char ((of_char c :: nat) div 16),
            hex_char ((of_char c :: nat) mod 16)])"

definition repr_str :: "string \<Rightarrow> string" where
  "repr_str s =
     (let quote = (if CHR 0x27 \<in> set s \<and> CHR 0x22 \<notin> set s then CHR 0x22 else CHR 0x27)
      in quote # concat (map (repr_char quote) s) @ [quote])"

text \<open>
  The text of a float is the runtime's business; it is a parameter \<open>fs\<close> of the model.
\<close>

fun py_repr :: "(real \<Rightarrow> string) \<Rightarrow> json \<Rightarrow> string" where
  "py_repr fs JNull = ''None''"
| "py_repr fs (JBool b) = (if b then ''True'' else ''False'')"
| "py_repr fs (JInt i) = str_int i"
| "py_repr fs (JFloat r) = fs r"
| "py_repr fs (JStr s) = repr_str s"
| "py_repr fs (JArr xs) = ''['' @ join '', '' (map (py_repr fs) xs) @ '']''"
| "py_repr fs (JObj kvs) =
     ''{'' @ join '', '' (map (\<lambda>(k, v). repr_str k @ '': '' @ py_repr fs v) kvs) @ ''}''"

text \<open>\<open>str(x)\<close>, also what an f-string writes for \<open>{x}\<close>.\<close>

definition py_str :: "(real \<Rightarrow> string) \<Rightarrow> json \<Rightarrow> string" where
  "py_str fs x = (case x of JStr s \<Rightarrow> s | _ \<Rightarrow> py_repr fs x)"

section \<open>The retry condition of the HTTP wrappers (welldataAPI.py)\<close>

text \<open>
  The operands of the conditions are Python objects of three kinds: booleans, integers
  and \<open>range\<close> objects. \<open>and\<close> and \<open>or\<close> return one of their operands, and an
  \<open>elif\<close> takes the branch when the result is truthy.
\<close>

datatype pyval = PBool bool | PInt int | PRange int int int

text \<open>Number of elements of \<open>range(start, stop, step)\<close> (a zero step cannot be built).\<close>

definition range_len :: "int \<Rightarrow> int \<Rightarrow> int \<Rightarrow> int" where
  "range_len start stop step =
     (if step > 0 \<and> start < stop then (stop - start - 1) div step + 1
      else if step < 0 \<and> stop < start then (start - stop - 1) div (- step) + 1
      else 0)"

fun truthy :: "pyval \<Rightarrow> bool" where
  "truthy (PBool b) = b"
| "truthy (PInt i) = (i \<noteq> 0)"
| "truthy (PRange start stop step) = (range_len start stop step \<noteq> 0)"

text \<open>
  \<open>==\<close>: booleans and integers compare by numeric value; an integer or boolean never
  equals a \<open>range\<close> object; two ranges are equal when they denote the same sequence.
\<close>

fun py_eq_val :: "pyval \<Rightarrow> pyval \<Rightarrow> bool" where
  "py_eq_val (PBool a) (PBool b) = (a = b)"
| "py_eq_val (PBool a) (PInt b) = ((if a then 1 else 0) = b)"
| "py_eq_val (PInt a) (PBool b) = (a = (if b then 1 else 0))"
| "py_eq_val (PInt a) (PInt b) = (a = b)"
| "py_eq_val (PRange a b c) (PRange a' b' c') =
     (range_len a b c = range_len a' b' c' \<and>
      (range_len a b c = 0 \<or> (a = a' \<and> (range_len a b c = 1 \<or> c = c'))))"
| "py_eq_val (PRange a b c) _ = False"
| "py_eq_val _ (PRange a b c) = False"

definition py_and :: "pyval \<Rightarrow> pyval \<Rightarrow> pyval" where
  "py_and a b = (if truthy a then b else a)"

definition py_or :: "pyval \<Rightarrow> pyval \<Rightarrow> pyval" where
  "py_or a b = (if truthy a then a else b)"

text \<open>
  The comparison that both wrappers write, \<open>r.status_code == range(500, 599, 1)\<close>.
\<close>

definition status_eq_range :: "int \<Rightarrow> bool" where
  "status_eq_range status_code = py_eq_val (PInt status_code) (PRange 500 599 1)"

text \<open>
  getApiCall, line 377:
  \<open>elif r.status_code != 200 and r.status_code == range(500, 599, 1) or 400\<close>.
  \<open>and\<close> binds tighter than \<open>or\<close>.
\<close>

definition getApiCall_retry_cond :: "int \<Rightarrow> pyval" where
  "getApiCall_retry_cond status_code =
     py_or (py_and (PBool (status_code \<noteq> 200)) (PBool (status_eq_range status_code)))
           (PInt 400)"

text \<open>
  postApiCall, line 436 (and getJobs, line 564):
  \<open>elif r.status_code != 200 and (r.status_code == range(500, 599, 1) or range(400, 410, 1))\<close>.
\<close>

definition postApiCall_retry_cond :: "int \<Rightarrow> pyval" where
  "postApiCall_retry_cond status_code =
     py_and (PBool (status_code \<noteq> 200))
            (py_or (PBool (status_eq_range status_code)) (PRange 400 410 1))"

text \<open>
  getReports, line 1170 (the listing request):
  \<open>elif r.status_code != 200 and r.status_code == range(400, 599, 1) or 400\<close>.
\<close>

definition getReports_retry_cond :: "int \<Rightarrow> pyval" where
  "getReports_retry_cond status_code =
     py_or (py_and (PBool (status_code \<noteq> 200))
                   (PBool (py_eq_val (PInt status_code) (PRange 400 599 1))))
           (PInt 400)"

text \<open>
  The \<open>elif\<close> follows \<open>if r.status_code == 200\<close>, so its body (sleep, then the second
  request) runs when the status is not 200 and the condition is truthy.
\<close>

definition getApiCall_retry_entered :: "int \<Rightarrow> bool" where
  "getApiCall_retry_entered status_code =
     (\<not> status_code = 200 \<and> truthy (getApiCall_retry_cond status_code))"

definition postApiCall_retry_entered :: "int \<Rightarrow> bool" where
  "postApiCall_retry_entered status_code =
     (\<not> status_code = 200 \<and> truthy (postApiCall_retry_cond status_code))"

section \<open>The provider and the HTTP wrappers\<close>

text \<open>
  A request is the endpoint with the texts substituted into its URL; the model does not
  follow a job id whose own text contains a piece of the URL templates (a placeholder,
  or \<open>includeCapabilities\<close>, by which getJobs chooses its branch). The provider is
  outside the program: \<open>http W n req\<close> is what the \<open>n\<close>-th request of the run gets when
  it is \<open>req\<close>, either a transport error (an exception of the \<open>requests\<close> library) or a
  response with its status code and its body, \<open>None\<close> when the body is not JSON, so
  that \<open>r.json()\<close> raises.
\<close>

datatype request =
    GetJobsIdCapabilities string
  | GetAttributes string
  | PostDataTime string "string list"
  | GetJobsId string
  | GetReportsList string
  | GetReportsContent string "string option"

datatype http_result = ConnError | Resp int "json option"

record world =
  http :: "nat \<Rightarrow> request \<Rightarrow> http_result"
  float_str :: "real \<Rightarrow> string"

text \<open>
  The shape shared by getApiCall (lines 353-407), getJobs for one job (lines 544-605)
  and both branches of getReports (lines 1161-1256): one request; on status 200 the body
  is turned into the result list; otherwise, if the \<open>elif\<close> condition is truthy, a
  pause and one more request; every exception is caught, logged and leaves the result
  list as it is. \<open>sent\<close> is the log of the requests made so far. The result is the
  Python list \<open>wells\<close>.
\<close>

definition on_200 :: "(json \<Rightarrow> json list) \<Rightarrow> json option \<Rightarrow> json" where
  "on_200 ok body = (case body of None \<Rightarrow> JArr [] | Some values \<Rightarrow> JArr (ok values))"

definition get_with_retry ::
  "(int \<Rightarrow> pyval) \<Rightarrow> (json \<Rightarrow> json list) \<Rightarrow> world \<Rightarrow> request \<Rightarrow> request list
     \<Rightarrow> json \<times> request list" where
  "get_with_retry cond ok W req sent =
     (case http W (length sent) req of
        ConnError \<Rightarrow> (JArr [], sent @ [req])
      | Resp status_code body \<Rightarrow>
          if status_code = 200 then (on_200 ok body, sent @ [req])
          else if truthy (cond status_code) then
            (case http W (length (sent @ [req])) req of
               ConnError \<Rightarrow> (JArr [], sent @ [req, req])
             | Resp status_code2 body2 \<Rightarrow>
                 if status_code2 = 200 then (on_200 ok body2, sent @ [req, req])
                 else (JArr [], sent @ [req, req]))
          else (JArr [], sent @ [req]))"

text \<open>getApiCall: \<open>wells.append(values)\<close>.\<close>

definition getApiCall :: "world \<Rightarrow> request \<Rightarrow> request list \<Rightarrow> json \<times> request list" where
  "getApiCall = get_with_retry getApiCall_retry_cond (\<lambda>values. [values])"

text \<open>getJobs with a job id (the branch of lines 542-605), condition of line 564.\<close>

definition getJobs_id :: "world \<Rightarrow> request \<Rightarrow> request list \<Rightarrow> json \<times> request list" where
  "getJobs_id = get_with_retry postApiCall_retry_cond (\<lambda>values. [values])"

text \<open>
  getReports without a report id (lines 1159-1202):
  \<open>for w in values['availableReports']: wells.append(w)\<close>; a missing key or a value
  that cannot be iterated raises inside the \<open>try\<close>, before anything is appended.
\<close>

definition availableReports :: "json \<Rightarrow> json list" where
  "availableReports values =
     (case bind (getitem values ''availableReports'') py_iter of
        Inl e \<Rightarrow> [] | Inr ws \<Rightarrow> ws)"

definition getReports_list :: "world \<Rightarrow> request \<Rightarrow> request list \<Rightarrow> json \<times> request list" where
  "getReports_list = get_with_retry getReports_retry_cond availableReports"

text \<open>getReports with a report id (lines 1204-1256), condition of line 1219.\<close>

definition getReports_content :: "world \<Rightarrow> request \<Rightarrow> request list \<Rightarrow> json \<times> request list" where
  "getReports_content = get_with_retry getApiCall_retry_cond (\<lambda>values. [values])"

text \<open>
  historical_data_time (lines 193-204) has no status check and no \<open>try\<close>: the call
  raises on a transport error or a body that is not JSON. Its decorator runs it again,
  three attempts in all, and then returns what \<open>retry_error_callback\<close> returns, which
  is \<open>None\<close>.
\<close>

fun historical_data_time :: "world \<Rightarrow> request \<Rightarrow> nat \<Rightarrow> request list \<Rightarrow> json \<times> request list" where
  "historical_data_time W req 0 sent = (JNull, sent)"
| "historical_data_time W req (Suc attempts) sent =
     (case http W (length sent) req of
        ConnError \<Rightarrow> historical_data_time W req attempts (sent @ [req])
      | Resp status_code body \<Rightarrow>
          (case body of
             None \<Rightarrow> historical_data_time W req attempts (sent @ [req])
           | Some values \<Rightarrow> (values, sent @ [req])))"

section \<open>Report schema dispatch (RAEAutomation.py, lines 713-792)\<close>

datatype schema =
    GenericAmericanMorningReportDW
  | HandPMorningReport
  | ScanMorningReport
  | RapadMorningReport
  | PattersonMorningReportRevB

fun marker :: "schema \<Rightarrow> string" where
  "marker GenericAmericanMorningReportDW = ''GenericAmericanMorningReportDW''"
| "marker HandPMorningReport = ''HandPMorningReport''"
| "marker ScanMorningReport = ''ScanMorningReport''"
| "marker RapadMorningReport = ''RapadMorningReport''"
| "marker PattersonMorningReportRevB = ''PattersonMorningReportRevB''"

text \<open>
  The \<open>if\<close>/\<open>elif\<close> chain over \<open>str(report)\<close>; \<open>None\<close> is the final \<open>else\<close>, the
  unrecognized bucket.
\<close>

definition schema_dispatch :: "string \<Rightarrow> schema option" where
  "schema_dispatch s =
     (if str_contains ''GenericAmericanMorningReportDW'' s then Some GenericAmericanMorningReportDW
      else if str_contains ''HandPMorningReport'' s then Some HandPMorningReport
      else if str_contains ''ScanMorningReport'' s then Some ScanMorningReport
      else if str_contains ''RapadMorningReport'' s then Some RapadMorningReport
      else if str_contains ''PattersonMorningReportRevB'' s then Some PattersonMorningReportRevB
      else None)"

section \<open>The daily run (RAEAutomation.py, \<open>main\<close>)\<close>

subsection \<open>Status codes and the per-job variables\<close>

definition emoji_check :: int where "emoji_check = 3"
definition emoji_exclamation :: int where "emoji_exclamation = 2"
definition emoji_x :: int where "emoji_x = 0"

text \<open>
  The variables that lines 208-251 reset for every job and that a row reads. The
  \<open>*_val\<close> copies of the channel values are written and never read, except the three
  IADC ones; they are left out.
\<close>

record locals =
  HookLoadbool :: int
  PumpPressurebool :: int
  BlockHeightbool :: int
  PumpSpmbool :: int
  PumpSpm2bool :: int
  PumpSpm3bool :: int
  RotaryTorquebool :: int
  BitPositionbool :: int
  BitStatusbool :: json
  SlipStatusbool :: json
  tpDriveRPM :: int
  comment :: json
  comment24 :: json
  reportDate :: json
  reportID :: json
  reportStatus :: json
  realTime :: int
  tpDriveTorq :: int
  weightonBit :: int
  RP_Fast :: int
  tHookLoad :: int
  Iadc_Rig_val :: json
  Iadc2_Rig_val :: json
  Iadc3_Rig_val :: json

definition init_locals :: locals where
  "init_locals =
     \<lparr> HookLoadbool = emoji_x, PumpPressurebool = emoji_x, BlockHeightbool = emoji_x,
       PumpSpmbool = emoji_x, PumpSpm2bool = emoji_x, PumpSpm3bool = emoji_x,
       RotaryTorquebool = emoji_x, BitPositionbool = emoji_x,
       BitStatusbool = JInt emoji_x, SlipStatusbool = JInt emoji_x,
       tpDriveRPM = emoji_x,
       comment = JStr ''NA'', comment24 = JStr ''NA'', reportDate = JStr [],
       reportID = JStr [], reportStatus = JStr [],
       realTime = emoji_x, tpDriveTorq = emoji_x, weightonBit = emoji_x,
       RP_Fast = emoji_x, tHookLoad = emoji_x,
       Iadc_Rig_val = JStr [], Iadc2_Rig_val = JStr [], Iadc3_Rig_val = JStr [] \<rparr>"

text \<open>
  The lists that \<open>main\<close> fills during the run, and the log of the requests sent.
  \<open>count\<close>, \<open>jobcount\<close> and \<open>wellList\<close> are written and never read; they are left out.
\<close>

record run_state =
  RAEJobs :: "json list list"
  MR_Report_Ids :: "(json \<times> json) list"
  MR_Report_Comments :: "json list list"
  processedJobList :: "(json \<times> string) list"
  ZeroReportList :: "json list"
  jobsTimeBased :: "(json \<times> json) list"
  sent :: "request list"

definition init_state :: run_state where
  "init_state =
     \<lparr> RAEJobs = [], MR_Report_Ids = [], MR_Report_Comments = [], processedJobList = [],
       ZeroReportList = [], jobsTimeBased = [], sent = [] \<rparr>"

subsection \<open>Job discovery (lines 174-196)\<close>

text \<open>\<open>d[k] = v\<close> on a dictionary kept as an association list in insertion order.\<close>

fun dict_set :: "('k \<Rightarrow> 'k \<Rightarrow> bool) \<Rightarrow> ('k \<times> 'v) list \<Rightarrow> 'k \<Rightarrow> 'v \<Rightarrow> ('k \<times> 'v) list" where
  "dict_set eq [] k v = [(k, v)]"
| "dict_set eq ((k', v') # kvs) k v =
     (if eq k' k then (k', v) # kvs else (k', v') # dict_set eq kvs k v)"

definition asset_field :: "json \<Rightarrow> string \<Rightarrow> exn + json" where
  "asset_field w k =
     bind (getitem w ''assetInfoList'') (\<lambda>a. bind (getindex a 0) (\<lambda>a0. getitem a0 k))"

fun build_lookup :: "(real \<Rightarrow> string) \<Rightarrow> json list \<Rightarrow> (string \<times> json) list
     \<Rightarrow> exn + (string \<times> json) list" where
  "build_lookup fs [] lookup_table = Inr lookup_table"
| "build_lookup fs (w # ws) lookup_table =
     bind (asset_field w ''owner'') (\<lambda>owner.
     bind (asset_field w ''name'') (\<lambda>name.
     bind (getitem w ''id'') (\<lambda>v.
       build_lookup fs ws
         (dict_set (=) lookup_table (py_str fs owner @ '' '' @ py_str fs name) v))))"

text \<open>
  \<open>for w in RAE_Rigs: for key, value in lookup_table.items(): if w in key:
  tmpJobs.append(value)\<close>
\<close>

fun select_jobs :: "string list \<Rightarrow> (string \<times> json) list \<Rightarrow> json list" where
  "select_jobs [] lookup_table = []"
| "select_jobs (w # ws) lookup_table =
     map snd (filter (\<lambda>kv. str_contains w (fst kv)) lookup_table) @ select_jobs ws lookup_table"

subsection \<open>Capabilities and attribute selection (lines 256-342)\<close>

definition capability_check :: "(real \<Rightarrow> string) \<Rightarrow> json \<Rightarrow> exn + int" where
  "capability_check fs rTime =
     (if str_contains ''realTime'' (py_str fs rTime) then
        bind (getindex rTime 0) (\<lambda>x. bind (getitem x ''realTime'') (\<lambda>v.
          Inr (if py_eq v (JStr ''Supported'') then emoji_check else emoji_x)))
      else Inr emoji_x)"

text \<open>
  \<open>Attribute(id=c['id'], mode='Last')\<close>: the \<open>id\<close> field is declared \<open>str\<close>; the
  validator keeps a string, writes a number as its text and rejects everything else.
\<close>

definition Attribute :: "(real \<Rightarrow> string) \<Rightarrow> json \<Rightarrow> exn + string" where
  "Attribute fs v =
     (case v of
        JStr s \<Rightarrow> Inr s
      | JInt i \<Rightarrow> Inr (str_int i)
      | JFloat r \<Rightarrow> Inr (fs r)
      | JBool b \<Rightarrow> Inr (if b then ''True'' else ''False'')
      | _ \<Rightarrow> Inl ValidationError)"

definition mnemonics :: "string list" where
  "mnemonics =
     [''HOOKLOAD_MAX'', ''STP_PRS_1'', ''BLOCK_POS'', ''MP1_SPM'', ''MP2_SPM'', ''MP3_SPM'',
      ''ROT_TORQUE'', ''TD_SPEED'', ''TD_TORQUE'', ''WOB'', ''BIT_DEPTH'', ''BIT_ON_BTM'',
      ''FAST_ROP_FT_HR'', ''SLIPS_STAT'', ''Trigger Hkld'', ''IADC_RIG_ACTIVITY'',
      ''IADC_RIG_ACTIVITY2'', ''IADC_RIG_ACTIVITY3'']"

text \<open>
  One \<open>if c['hasData'] == True and c['alias']['witsml_mnemonic'] == m\<close> per mnemonic,
  in the order of the source; \<open>and\<close> does not look at the alias when the first test
  fails.
\<close>

fun select_mnemonics :: "(real \<Rightarrow> string) \<Rightarrow> json \<Rightarrow> string list \<Rightarrow> string list
     \<Rightarrow> exn + string list" where
  "select_mnemonics fs c [] attsLst = Inr attsLst"
| "select_mnemonics fs c (m # ms) attsLst =
     bind (getitem c ''hasData'') (\<lambda>h.
       if py_eq h (JBool True) then
         bind (getitem c ''alias'') (\<lambda>a. bind (getitem a ''witsml_mnemonic'') (\<lambda>mn.
           if py_eq mn (JStr m) then
             bind (getitem c ''id'') (\<lambda>i. bind (Attribute fs i) (\<lambda>attr.
               select_mnemonics fs c ms (attsLst @ [attr])))
           else select_mnemonics fs c ms attsLst))
       else select_mnemonics fs c ms attsLst)"

fun select_loop :: "(real \<Rightarrow> string) \<Rightarrow> json list \<Rightarrow> string list \<Rightarrow> exn + string list" where
  "select_loop fs [] attsLst = Inr attsLst"
| "select_loop fs (c # cs) attsLst =
     bind (py_len c) (\<lambda>n. bind (select_mnemonics fs c mnemonics attsLst) (select_loop fs cs))"

definition select_attributes :: "(real \<Rightarrow> string) \<Rightarrow> json \<Rightarrow> exn + string list" where
  "select_attributes fs q =
     bind (getindex q 0) (\<lambda>q0. bind (getitem q0 ''attributes'') (\<lambda>attrs.
       bind (py_iter attrs) (\<lambda>cs. select_loop fs cs [])))"

subsection \<open>Snapshot (lines 393-440)\<close>

definition hashable :: "json \<Rightarrow> bool" where
  "hashable x = (case x of JArr xs \<Rightarrow> False | JObj kvs \<Rightarrow> False | _ \<Rightarrow> True)"

fun snapshot_loop :: "json \<Rightarrow> nat \<Rightarrow> json list \<Rightarrow> (json \<times> json) list
     \<Rightarrow> exn + (json \<times> json) list" where
  "snapshot_loop values_timestamp_0 i [] attribute_mapping = Inr attribute_mapping"
| "snapshot_loop values_timestamp_0 i (attribute # rest) attribute_mapping =
     bind (getitem attribute ''id'') (\<lambda>attribute_id.
     bind (getindex values_timestamp_0 i) (\<lambda>entry.
     bind (getindex entry 1) (\<lambda>attribute_value.
       if hashable attribute_id then
         snapshot_loop values_timestamp_0 (Suc i) rest
           (dict_set py_eq attribute_mapping attribute_id attribute_value)
       else Inl TypeError)))"

definition snapshot :: "json \<Rightarrow> exn + (json \<times> json) list" where
  "snapshot hist =
     bind (getitem hist ''timeRecords'') (\<lambda>tr. bind (getindex tr 0) (\<lambda>t0.
     bind (getitem t0 ''values'') (\<lambda>values_timestamp_0.
     bind (getitem hist ''attributes'') (\<lambda>attrs. bind (py_iter attrs) (\<lambda>as.
       snapshot_loop values_timestamp_0 0 as [])))))"

subsection \<open>Channel classification (lines 445-686)\<close>

text \<open>
  \<open>if v == 0: exclamation; elif v > 0: check; else: x\<close>, and the same tests in the
  other order, as TrigHkld and RotaryTorque have them.
\<close>

definition zero_first :: "real \<Rightarrow> int" where
  "zero_first v =
     (if v = 0 then emoji_exclamation else if v > 0 then emoji_check else emoji_x)"

definition positive_first :: "real \<Rightarrow> int" where
  "positive_first v =
     (if v > 0 then emoji_check else if v = 0 then emoji_exclamation else emoji_x)"

text \<open>
  \<open>if isinstance(v, float) or isinstance(v, int): ...\<close>: a boolean is an \<open>int\<close>.
  With any other value the status variable keeps what it holds.
\<close>

definition float_or_int :: "(real \<Rightarrow> int) \<Rightarrow> json \<Rightarrow> int \<Rightarrow> int" where
  "float_or_int rule v cur =
     (case v of
        JFloat r \<Rightarrow> rule r
      | JInt i \<Rightarrow> rule (of_int i)
      | JBool b \<Rightarrow> rule (if b then 1 else 0)
      | _ \<Rightarrow> cur)"

text \<open>\<open>if isinstance(v, int): ...\<close>, the test of RotaryTorque (line 543).\<close>

definition int_only :: "(real \<Rightarrow> int) \<Rightarrow> json \<Rightarrow> int \<Rightarrow> int" where
  "int_only rule v cur =
     (case v of
        JInt i \<Rightarrow> rule (of_int i)
      | JBool b \<Rightarrow> rule (if b then 1 else 0)
      | _ \<Rightarrow> cur)"

definition bit_status :: "json \<Rightarrow> json" where
  "bit_status v =
     (if py_eq v (JInt 0) then JStr ''On''
      else if py_eq v (JInt 1) then JStr ''Off''
      else JInt emoji_x)"

definition slip_status :: "json \<Rightarrow> json" where
  "slip_status v =
     (if py_eq v (JInt 0) then JStr ''Resetting''
      else if py_eq v (JInt 1) then JStr ''in''
      else if py_eq v (JInt 2) then JStr ''out''
      else JInt emoji_x)"

definition when_key :: "json \<Rightarrow> string \<Rightarrow> (locals \<Rightarrow> locals) \<Rightarrow> locals \<Rightarrow> locals" where
  "when_key key name f L = (if py_eq key (JStr name) then f L else L)"

text \<open>The body of the loop: one \<open>if key == ...\<close> after the other, none an \<open>elif\<close>.\<close>

definition classify_item :: "json \<Rightarrow> json \<Rightarrow> locals \<Rightarrow> locals" where
  "classify_item key v L =
     fold (\<lambda>step. step)
       [when_key key ''HookLoad''
          (\<lambda>L. L\<lparr>HookLoadbool := float_or_int zero_first v (HookLoadbool L)\<rparr>),
        when_key key ''PumpPressure''
          (\<lambda>L. L\<lparr>PumpPressurebool := float_or_int zero_first v (PumpPressurebool L)\<rparr>),
        when_key key ''BlockHeight''
          (\<lambda>L. L\<lparr>BlockHeightbool := float_or_int zero_first v (BlockHeightbool L)\<rparr>),
        when_key key ''PumpSpm''
          (\<lambda>L. L\<lparr>PumpSpmbool := float_or_int zero_first v (PumpSpmbool L)\<rparr>),
        when_key key ''PumpSpm2''
          (\<lambda>L. L\<lparr>PumpSpm2bool := float_or_int zero_first v (PumpSpm2bool L)\<rparr>),
        when_key key ''PumpSpm3''
          (\<lambda>L. L\<lparr>PumpSpm3bool := float_or_int zero_first v (PumpSpm3bool L)\<rparr>),
        when_key key ''RotaryTorque''
          (\<lambda>L. L\<lparr>RotaryTorquebool := int_only positive_first v (RotaryTorquebool L)\<rparr>),
        when_key key ''TopDrvRpm''
          (\<lambda>L. L\<lparr>tpDriveRPM := float_or_int zero_first v (tpDriveRPM L)\<rparr>),
        when_key key ''TopDrvTorque''
          (\<lambda>L. L\<lparr>tpDriveTorq := float_or_int zero_first v (tpDriveTorq L)\<rparr>),
        when_key key ''BitWeightQualified''
          (\<lambda>L. L\<lparr>weightonBit := float_or_int zero_first v (weightonBit L)\<rparr>),
        when_key key ''BitPosition''
          (\<lambda>L. L\<lparr>BitPositionbool := float_or_int zero_first v (BitPositionbool L)\<rparr>),
        when_key key ''BitStatus'' (\<lambda>L. L\<lparr>BitStatusbool := bit_status v\<rparr>),
        when_key key ''FastRopFtHr''
          (\<lambda>L. L\<lparr>RP_Fast := float_or_int zero_first v (RP_Fast L)\<rparr>),
        when_key key ''SlipStatus'' (\<lambda>L. L\<lparr>SlipStatusbool := slip_status v\<rparr>),
        when_key key ''TrigHkld''
          (\<lambda>L. L\<lparr>tHookLoad := float_or_int positive_first v (tHookLoad L)\<rparr>),
        when_key key ''IadcRigActivity'' (\<lambda>L. L\<lparr>Iadc_Rig_val := v\<rparr>),
        when_key key ''IadcRigActivity2'' (\<lambda>L. L\<lparr>Iadc2_Rig_val := v\<rparr>),
        when_key key ''RigActivity'' (\<lambda>L. L\<lparr>Iadc3_Rig_val := v\<rparr>)]
       L"

text \<open>\<open>for key, value in attribute_mapping.items(): ...\<close>\<close>

definition classify :: "(json \<times> json) list \<Rightarrow> locals \<Rightarrow> locals" where
  "classify attribute_mapping L = fold (\<lambda>kv. classify_item (fst kv) (snd kv)) attribute_mapping L"

subsection \<open>Report fields (lines 713-788)\<close>

text \<open>\<open>report[0]['Reports'][0][name][sect][key]\<close>\<close>

definition report_field :: "json \<Rightarrow> string \<Rightarrow> string \<Rightarrow> string \<Rightarrow> exn + json" where
  "report_field report name sect key =
     bind (getindex report 0) (\<lambda>a. bind (getitem a ''Reports'') (\<lambda>b.
     bind (getindex b 0) (\<lambda>c. bind (getitem c name) (\<lambda>d.
     bind (getitem d sect) (\<lambda>e. getitem e key)))))"

text \<open>
  Each branch assigns the report fields in the order of the source and then yields the
  activity items it will loop over. An exception leaves the function before the
  following assignments.
\<close>

definition extract_report :: "(real \<Rightarrow> string) \<Rightarrow> schema \<Rightarrow> json \<Rightarrow> locals \<Rightarrow> exn + locals \<times> json list" where
  "extract_report fs k report L =
     (case k of
        GenericAmericanMorningReportDW \<Rightarrow>
          bind (report_field report (marker k) ''Header'' ''Date'') (\<lambda>d.
          bind (report_field report (marker k) ''Header'' ''OpsAtReportTime'') (\<lambda>c.
          bind (if str_contains ''OpsNext24'' (py_str fs report)
                then report_field report (marker k) ''Header'' ''OpsNext24''
                else Inr (comment24 L)) (\<lambda>c24.
          bind (report_field report (marker k) ''ReportAttributes'' ''ReportID'') (\<lambda>i.
          bind (report_field report (marker k) ''ReportAttributes'' ''ReportStatus'') (\<lambda>s.
          bind (report_field report (marker k) ''ActivityDetails'' ''Items'') (\<lambda>items.
          bind (py_iter items) (\<lambda>reps.
            Inr (L\<lparr>reportDate := d, comment := c, comment24 := c24, reportID := i,
                   reportStatus := s\<rparr>, reps))))))))
      | HandPMorningReport \<Rightarrow>
          bind (report_field report (marker k) ''Header'' ''Date'') (\<lambda>d.
          bind (report_field report (marker k) ''Operations'' ''PresentOp'') (\<lambda>c.
          bind (report_field report (marker k) ''ReportAttributes'' ''ReportID'') (\<lambda>i.
          bind (report_field report (marker k) ''ReportAttributes'' ''ReportStatus'') (\<lambda>s.
          bind (report_field report (marker k) ''TimeSummary'' ''Items'') (\<lambda>items.
          bind (py_iter items) (\<lambda>reps.
            Inr (L\<lparr>reportDate := d, comment := c, comment24 := JStr [], reportID := i,
                   reportStatus := s\<rparr>, reps)))))))
      | ScanMorningReport \<Rightarrow>
          bind (report_field report (marker k) ''Header'' ''Date'') (\<lambda>d.
          bind (report_field report (marker k) ''ReportAttributes'' ''ReportID'') (\<lambda>i.
          bind (report_field report (marker k) ''ReportAttributes'' ''ReportStatus'') (\<lambda>s.
          bind (report_field report (marker k) ''Header'' ''PresentOp'') (\<lambda>c.
          bind (report_field report (marker k) ''TimeBreakDown'' ''Items'') (\<lambda>items.
          bind (py_iter items) (\<lambda>reps.
            Inr (L\<lparr>reportDate := d, reportID := i, reportStatus := s, comment := c\<rparr>,
                 reps)))))))
      | RapadMorningReport \<Rightarrow>
          bind (report_field report (marker k) ''Header'' ''ReportDate'') (\<lambda>d.
          bind (report_field report (marker k) ''Header'' ''OperationsActivityCurrent'') (\<lambda>c.
          bind (report_field report (marker k) ''Header'' ''OperationsActivityNext24Hours'')
            (\<lambda>c24.
          bind (report_field report (marker k) ''ReportAttributes'' ''ReportID'') (\<lambda>i.
          bind (report_field report (marker k) ''ReportAttributes'' ''ReportStatus'') (\<lambda>s.
          bind (report_field report (marker k) ''ActivityDetails'' ''Items'') (\<lambda>items.
          bind (py_iter items) (\<lambda>reps.
            Inr (L\<lparr>reportDate := d, comment := c, comment24 := c24, reportID := i,
                   reportStatus := s\<rparr>, reps))))))))
      | PattersonMorningReportRevB \<Rightarrow>
          bind (report_field report (marker k) ''Header'' ''ReportDate'') (\<lambda>d.
          bind (report_field report (marker k) ''OperationsCasingDetails''
                  ''operations_at_report_time'') (\<lambda>c.
          bind (bind (getindex report 0) (\<lambda>a. bind (getitem a ''Reports'') (\<lambda>b.
                bind (getindex b 0) (\<lambda>c. bind (getitem c (marker k)) (\<lambda>d.
                bind (getitem d ''OperationsCasingDetails'')
                  (py_contains ''operations_next_24_hours'')))))) (\<lambda>has24.
          bind (if has24
                then report_field report (marker k) ''OperationsCasingDetails''
                       ''operations_next_24_hours''
                else Inr (comment24 L)) (\<lambda>c24.
          bind (report_field report (marker k) ''ReportAttributes'' ''ReportID'') (\<lambda>i.
          bind (report_field report (marker k) ''ReportAttributes'' ''ReportStatus'') (\<lambda>s.
          bind (report_field report (marker k) ''ActivityDetails'' ''Items'') (\<lambda>items.
          bind (py_iter items) (\<lambda>reps.
            Inr (L\<lparr>reportDate := d, comment := c, comment24 := c24, reportID := i,
                   reportStatus := s\<rparr>, reps))))))))))"

text \<open>\<open>r[0]['id']\<close> and \<open>r[0]['date']\<close> of the listing entry.\<close>

definition report_ref :: "json \<Rightarrow> exn + json \<times> json" where
  "report_ref r =
     bind (getindex r 0) (\<lambda>r0. bind (getitem r0 ''id'') (\<lambda>i.
     bind (getitem r0 ''date'') (\<lambda>d. Inr (i, d))))"

text \<open>
  \<open>if ck in rep: MR_Report_Comments.append([well, r[0]['id'], r[0]['date'], rep[ck],
  rep[tk]])\<close>; \<open>None\<close> stands for \<open>continue\<close>.
\<close>

definition activity_row :: "json \<Rightarrow> json \<Rightarrow> string \<Rightarrow> string \<Rightarrow> json \<Rightarrow> exn + json list option" where
  "activity_row well r ck tk rep =
     bind (py_contains ck rep) (\<lambda>present.
       if present then
         bind (report_ref r) (\<lambda>ref. bind (getitem rep ck) (\<lambda>code.
         bind (getitem rep tk) (\<lambda>descr.
           Inr (Some [well, fst ref, snd ref, code, descr]))))
       else Inr None)"

text \<open>The Patterson items (lines 779-788): the code is optional.\<close>

definition patterson_row :: "json \<Rightarrow> json \<Rightarrow> json \<Rightarrow> exn + json list option" where
  "patterson_row well r rep =
     bind (py_contains ''details'' rep) (\<lambda>present.
       if present then
         bind (py_contains ''code'' rep) (\<lambda>has_code.
         bind (if has_code then getitem rep ''code'' else Inr (JStr [])) (\<lambda>code.
         bind (report_ref r) (\<lambda>ref. bind (getitem rep ''details'') (\<lambda>descr.
           Inr (Some [well, fst ref, snd ref, code, descr])))))
       else Inr None)"

definition row_of :: "schema \<Rightarrow> json \<Rightarrow> json \<Rightarrow> json \<Rightarrow> exn + json list option" where
  "row_of k well r =
     (case k of
        GenericAmericanMorningReportDW \<Rightarrow> activity_row well r ''ActCode'' ''DescriptionOfWork''
      | HandPMorningReport \<Rightarrow> activity_row well r ''ActivityCode'' ''ActivityDetails''
      | ScanMorningReport \<Rightarrow> activity_row well r ''ActivityCode'' ''ActivityDetails''
      | RapadMorningReport \<Rightarrow>
          activity_row well r ''OperationsActivityCode'' ''OperationsActivityDescription''
      | PattersonMorningReportRevB \<Rightarrow> patterson_row well r)"

text \<open>The loop over the items; rows appended before an exception stay appended.\<close>

fun activity_loop :: "(json \<Rightarrow> exn + json list option) \<Rightarrow> json list \<Rightarrow> json list list
     \<Rightarrow> exn option \<times> json list list" where
  "activity_loop f [] acc = (None, acc)"
| "activity_loop f (rep # reps) acc =
     (case f rep of
        Inl e \<Rightarrow> (Some e, acc)
      | Inr None \<Rightarrow> activity_loop f reps acc
      | Inr (Some row) \<Rightarrow> activity_loop f reps (acc @ [row]))"

subsection \<open>The row of a job (lines 344-382, 395-433 and 795-831)\<close>

text \<open>
  The job id as the wrappers write it into the URL. getApiCall and
  historical_data_time always write \<open>str(jobId)\<close>; getJobs and getReports leave their
  placeholder when the id is \<open>None\<close>.
\<close>

definition getJobs_text :: "(real \<Rightarrow> string) \<Rightarrow> json \<Rightarrow> string" where
  "getJobs_text fs well = (if well = JNull then ''jobId'' else py_str fs well)"

definition getReports_text :: "(real \<Rightarrow> string) \<Rightarrow> json \<Rightarrow> string" where
  "getReports_text fs well = (if well = JNull then ''<jobId>'' else py_str fs well)"

text \<open>
  getReports chooses its branch by \<open>reportId is None\<close> (line 1159); the keyword is
  absent in the listing call of line 693 and is \<open>r[0]['id']\<close> in the call of line 708.
\<close>

definition getReports :: "world \<Rightarrow> json \<Rightarrow> json option \<Rightarrow> request list \<Rightarrow> json \<times> request list" where
  "getReports W well reportId reqs =
     (case reportId of
        None \<Rightarrow> getReports_list W (GetReportsList (getReports_text (float_str W) well)) reqs
      | Some rid \<Rightarrow>
          if rid = JNull then
            getReports_list W (GetReportsContent (getReports_text (float_str W) well) None) reqs
          else
            getReports_content W
              (GetReportsContent (getReports_text (float_str W) well)
                 (Some (py_str (float_str W) rid))) reqs)"

definition header :: "string list" where
  "header =
     [''Contractor'', ''Rig Number'', ''Operator'', ''Well name'', ''IADC'', ''IADC 2'',
      ''IADC3'', ''HookLoad'', ''PumpPressure'', ''BlockHeight'', ''PumpSpm'', ''PumpSpm2'',
      ''PumpSpm3'', ''RotaryTorque'', ''TopDrive RPM'', ''TopDrive Torque'', ''WOB'',
      ''ROP-F'', ''T-HL'', ''BitPosition'', ''BitStatus'', ''SlipStatus'', ''Comments'',
      ''Next 24 Hr Comments'', ''Report Id'', ''Report Date'']"

text \<open>
  The \<open>holder.append\<close> calls, the same in the three places. \<open>job\<close> is the list that
  getJobs returned; \<open>job[0]\<close> raises when it is empty.
\<close>

definition holder_of :: "(real \<Rightarrow> string) \<Rightarrow> json \<Rightarrow> locals \<Rightarrow> exn + json list" where
  "holder_of fs job L =
     bind (bind (getindex job 0) (\<lambda>j. asset_field j ''owner'')) (\<lambda>owner.
     bind (bind (getindex job 0) (\<lambda>j. asset_field j ''name'')) (\<lambda>name.
     bind (bind (getindex job 0) (\<lambda>j. bind (getitem j ''siteInfoList'') (\<lambda>s.
             bind (getindex s 0) (\<lambda>s0. getitem s0 ''owner'')))) (\<lambda>operator.
     bind (bind (getindex job 0) (\<lambda>j. getitem j ''name'')) (\<lambda>jobname.
       Inr [owner, name, operator, jobname,
            JStr (py_str fs (Iadc_Rig_val L)),
            JStr (py_str fs (Iadc2_Rig_val L)),
            JStr (py_str fs (Iadc3_Rig_val L)),
            JInt (HookLoadbool L),
            JInt (PumpPressurebool L),
            JInt (BlockHeightbool L),
            JInt (PumpSpmbool L),
            JInt (PumpSpm2bool L),
            JInt (PumpSpm3bool L),
            JInt (RotaryTorquebool L),
            JInt (tpDriveRPM L),
            JInt (tpDriveTorq L),
            JInt (weightonBit L),
            JInt (RP_Fast L),
            JInt (tHookLoad L),
            JInt (BitPositionbool L),
            JStr (py_str fs (BitStatusbool L)),
            JStr (py_str fs (SlipStatusbool L)),
            comment L, comment24 L, reportID L, reportDate L]))))"

text \<open>
  \<open>job = getJobs(..., jobId=well)\<close>, the appends to \<open>holder\<close>, and
  \<open>RAEJobs.append(holder)\<close>. The first component of the result is the exception that
  ended the step, if any.
\<close>

definition append_row :: "world \<Rightarrow> json \<Rightarrow> locals \<Rightarrow> run_state \<Rightarrow> exn option \<times> run_state" where
  "append_row W well L st =
     (case getJobs_id W (GetJobsId (getJobs_text (float_str W) well)) (sent st) of
        (job, sent1) \<Rightarrow>
          (case holder_of (float_str W) job L of
             Inl e \<Rightarrow> (Some e, st\<lparr>sent := sent1\<rparr>)
           | Inr holder \<Rightarrow> (None, st\<lparr>sent := sent1, RAEJobs := RAEJobs st @ [holder]\<rparr>)))"

subsection \<open>The report step (lines 693-831)\<close>

definition report_phase :: "world \<Rightarrow> json \<Rightarrow> locals \<Rightarrow> run_state \<Rightarrow> exn option \<times> run_state" where
  "report_phase W well L st =
     (case getReports W well None (sent st) of
        (r, sent1) \<Rightarrow>
          let st1 = st\<lparr>sent := sent1, MR_Report_Ids := MR_Report_Ids st @ [(well, r)]\<rparr> in
          if py_in_list well (ZeroReportList st1) then (None, st1)
          else if py_len r = Inr 0 then
            append_row W well (L\<lparr>comment := JStr ''no morning report''\<rparr>)
              (st1\<lparr>ZeroReportList := ZeroReportList st1 @ [well]\<rparr>)
          else
            (case bind (getindex r 0) (\<lambda>r0. getitem r0 ''id'') of
               Inl e \<Rightarrow> (Some e, st1)
             | Inr rid \<Rightarrow>
                 (case getReports W well (Some rid) (sent st1) of
                    (report, sent2) \<Rightarrow>
                      let st2 = st1\<lparr>sent := sent2\<rparr>;
                          empty = (py_len report = Inr 0);
                          st3 = (if empty
                                 then st2\<lparr>ZeroReportList := ZeroReportList st2 @ [well]\<rparr>
                                 else st2);
                          L3 = (if empty then L\<lparr>comment := JStr ''no morning report''\<rparr>
                                else L)
                      in
                      (case schema_dispatch (py_str (float_str W) report) of
                         None \<Rightarrow>
                           (case bind (getindex report 0) (\<lambda>a.
                                   bind (getitem a ''Reports'') (\<lambda>b. getindex b 0)) of
                              Inl e \<Rightarrow> (Some e, st3)
                            | Inr p \<Rightarrow>
                                (None, st3\<lparr>processedJobList :=
                                   processedJobList st3 @ [(well, py_str (float_str W) p)]\<rparr>))
                       | Some k \<Rightarrow>
                           (case extract_report (float_str W) k report L3 of
                              Inl e \<Rightarrow> (Some e, st3)
                            | Inr found \<Rightarrow>
                                (case activity_loop (row_of k well r) (snd found)
                                        (MR_Report_Comments st3) of
                                   (Some e, comments) \<Rightarrow>
                                     (Some e, st3\<lparr>MR_Report_Comments := comments\<rparr>)
                                 | (None, comments) \<Rightarrow>
                                     append_row W well (fst found)
                                       (st3\<lparr>MR_Report_Comments := comments\<rparr>)))))))"

subsection \<open>One job, the loop, the workbook\<close>

text \<open>
  The body of the loop. The configuration is taken to be valid: the time window parses
  (lines 386-387) and the payload of the telemetry request validates (line 389).
\<close>

definition timeRecords_len :: "json \<Rightarrow> exn + nat" where
  "timeRecords_len hist = bind (getitem hist ''timeRecords'') py_len"

definition process_job :: "world \<Rightarrow> json \<Rightarrow> run_state \<Rightarrow> exn option \<times> run_state" where
  "process_job W w st =
     (case getitem w ''id'' of
        Inl e \<Rightarrow> (Some e, st)
      | Inr well \<Rightarrow>
          (case getApiCall W (GetJobsIdCapabilities (py_str (float_str W) well)) (sent st) of
             (rTime, sent1) \<Rightarrow>
               (case capability_check (float_str W) rTime of
                  Inl e \<Rightarrow> (Some e, st\<lparr>sent := sent1\<rparr>)
                | Inr rt \<Rightarrow>
                    (case getApiCall W (GetAttributes (py_str (float_str W) well)) sent1 of
                       (q, sent2) \<Rightarrow>
                         (case select_attributes (float_str W) q of
                            Inl e \<Rightarrow> (Some e, st\<lparr>sent := sent2\<rparr>)
                          | Inr attsLst \<Rightarrow>
                              if length attsLst = 0 then
                                append_row W well (init_locals\<lparr>realTime := rt\<rparr>)
                                  (st\<lparr>sent := sent2\<rparr>)
                              else
                                (case historical_data_time W
                                        (PostDataTime (py_str (float_str W) well) attsLst) 3
                                        sent2 of
                                   (hist, sent3) \<Rightarrow>
                                     let st3 = st\<lparr>sent := sent3,
                                           jobsTimeBased := jobsTimeBased st @ [(well, hist)]\<rparr>
                                     in
                                     (case timeRecords_len hist of
                                        Inl e \<Rightarrow> (Some e, st3)
                                      | Inr n \<Rightarrow>
                                          if n = 0 then
                                            append_row W well (init_locals\<lparr>realTime := rt\<rparr>) st3
                                          else
                                            (case snapshot hist of
                                               Inl e \<Rightarrow> (Some e, st3)
                                             | Inr attribute_mapping \<Rightarrow>
                                                 report_phase W well
                                                   (classify attribute_mapping
                                                      (init_locals\<lparr>realTime := rt\<rparr>))
                                                   st3))))))))"

text \<open>
  \<open>try: for w in tmpAllJobs: ... except Exception\<close>: the first exception ends the
  loop; the handler logs it and the run goes on after the loop with the lists as they
  are.
\<close>

fun run_loop :: "world \<Rightarrow> json list \<Rightarrow> run_state \<Rightarrow> exn option \<times> run_state" where
  "run_loop W [] st = (None, st)"
| "run_loop W (w # ws) st =
     (case process_job W w st of
        (Some e, st') \<Rightarrow> (Some e, st')
      | (None, st') \<Rightarrow> run_loop W ws st')"

text \<open>
  What reaches the recipients: the sheets of the workbook that is attached to the
  e-mail. pandas sorts the rows of two sheets by their first column; the model keeps
  the rows and not their order.
\<close>

record delivery =
  rae_report :: "json list multiset"
  report_comment :: "json list multiset"
  jobs_not_found :: "(json \<times> string) list"
  no_report_list :: "json list"

text \<open>
  Lines 843-920. \<open>df = pd.DataFrame(rows); df.sort_values(by=df.columns[0])\<close>: a frame
  built from an empty list has no column, and \<open>df.columns[0]\<close> raises IndexError.
  Nothing catches it: the script ends before \<open>writer.close()\<close> saves the workbook and
  before the e-mail is sent. Failures of the file system, of a sort over cells of mixed
  types and of the mail server are outside the model.
\<close>

definition write_stage :: "run_state \<Rightarrow> exn + delivery" where
  "write_stage st =
     (if RAEJobs st = [] then Inl IndexError
      else if MR_Report_Comments st = [] then Inl IndexError
      else Inr \<lparr> rae_report = mset (RAEJobs st),
                 report_comment = mset (MR_Report_Comments st),
                 jobs_not_found = processedJobList st,
                 no_report_list = ZeroReportList st \<rparr>)"

text \<open>
  \<open>main\<close> from the job list on (line 175). \<open>tmpAllJobs\<close> is the list that getJobs
  returned, \<open>RAE_Rigs\<close> the configured rig names. The lookup table is built outside
  the \<open>try\<close>. \<open>tmpJobs\<close> is computed and printed; the loop runs over \<open>tmpAllJobs\<close>
  (line 200).
\<close>

definition tmpJobs :: "(real \<Rightarrow> string) \<Rightarrow> string list \<Rightarrow> json list \<Rightarrow> exn + json list" where
  "tmpJobs fs RAE_Rigs tmpAllJobs =
     bind (build_lookup fs tmpAllJobs []) (\<lambda>lookup_table.
       Inr (select_jobs RAE_Rigs lookup_table))"

definition main :: "world \<Rightarrow> string list \<Rightarrow> json list \<Rightarrow> exn + delivery" where
  "main W RAE_Rigs tmpAllJobs =
     bind (tmpJobs (float_str W) RAE_Rigs tmpAllJobs) (\<lambda>printed.
       write_stage (snd (run_loop W tmpAllJobs init_state)))"

section \<open>The shape of a row\<close>

text \<open>
  What the header of line 845 announces: as many cells as column names; the three IADC
  cells and the BitStatus and SlipStatus cells are strings, the thirteen cells between
  them are integers.
\<close>

definition is_str_cell :: "json \<Rightarrow> bool" where
  "is_str_cell x = (case x of JStr s \<Rightarrow> True | _ \<Rightarrow> False)"

definition is_int_cell :: "json \<Rightarrow> bool" where
  "is_int_cell x = (case x of JInt i \<Rightarrow> True | _ \<Rightarrow> False)"

definition row_shape :: "json list \<Rightarrow> bool" where
  "row_shape row =
     (length row = length header
      \<and> list_all is_str_cell (take 3 (drop 4 row))
      \<and> list_all is_int_cell (take 13 (drop 7 row))
      \<and> list_all is_str_cell (take 2 (drop 20 row)))"

section \<open>Well-formed values\<close>

text \<open>The keys of every dictionary inside a value are pairwise distinct.\<close>

fun wf_json :: "json \<Rightarrow> bool" where
  "wf_json (JArr xs) = list_all wf_json xs"
| "wf_json (JObj kvs) = (distinct (map fst kvs) \<and> list_all (\<lambda>(k, v). wf_json v) kvs)"
| "wf_json x = True"

section \<open>Example data\<close>

text \<open>
  Two jobs of the listing and the answers of a provider, used to run the definitions on
  concrete inputs.
\<close>

definition job1 :: json where
  "job1 =
     JObj [(''id'', JStr ''j1''), (''name'', JStr ''Well 1''),
           (''assetInfoList'', JArr [JObj [(''owner'', JStr ''Acme''), (''name'', JStr ''Rig 7'')]]),
           (''siteInfoList'', JArr [JObj [(''owner'', JStr ''OpCo'')]])]"

definition job2 :: json where
  "job2 =
     JObj [(''id'', JStr ''j2''), (''name'', JStr ''Well 2''),
           (''assetInfoList'', JArr [JObj [(''owner'', JStr ''Acme''), (''name'', JStr ''Rig 9'')]]),
           (''siteInfoList'', JArr [JObj [(''owner'', JStr ''OpCo'')]])]"

text \<open>One attribute with data and a recognized mnemonic; one attribute without data.\<close>

definition attrs_hookload :: json where
  "attrs_hookload =
     JObj [(''attributes'',
            JArr [JObj [(''id'', JStr ''HookLoad''), (''hasData'', JBool True),
                        (''alias'', JObj [(''witsml_mnemonic'', JStr ''HOOKLOAD_MAX'')])]])]"

definition attrs_none :: json where
  "attrs_none =
     JObj [(''attributes'',
            JArr [JObj [(''id'', JStr ''HookLoad''), (''hasData'', JBool False),
                        (''alias'', JObj [(''witsml_mnemonic'', JStr ''HOOKLOAD_MAX'')])]])]"

definition hist1 :: json where
  "hist1 =
     JObj [(''attributes'', JArr [JObj [(''id'', JStr ''HookLoad'')]]),
           (''timeRecords'',
            JArr [JObj [(''values'', JArr [JArr [JStr ''2024-01-10T06:05:17'', JFloat 25000]])]])]"

definition listing1 :: json where
  "listing1 =
     JObj [(''availableReports'',
            JArr [JObj [(''id'', JInt 77), (''date'', JStr ''2024-01-10'')]])]"

definition listing_empty :: json where
  "listing_empty = JObj [(''availableReports'', JArr [])]"

definition content_unknown :: json where
  "content_unknown = JObj [(''Reports'', JArr [JObj [(''Unknown'', JObj [])]])]"

text \<open>
  A provider that knows job \<open>j1\<close>: its attributes, its report listing and the answer to
  the request for the report content are parameters. The attributes of any other job
  are answered with status 500 and no JSON body.
\<close>

definition provider :: "json \<Rightarrow> json \<Rightarrow> http_result \<Rightarrow> world" where
  "provider attrs listing content =
     \<lparr> http = (\<lambda>n req.
         case req of
           GetJobsIdCapabilities j \<Rightarrow> Resp 200 (Some (JObj [(''realTime'', JStr ''Supported'')]))
         | GetAttributes j \<Rightarrow> (if j = ''j1'' then Resp 200 (Some attrs) else Resp 500 None)
         | PostDataTime j a \<Rightarrow> Resp 200 (Some hist1)
         | GetJobsId j \<Rightarrow> Resp 200 (Some job1)
         | GetReportsList j \<Rightarrow> Resp 200 (Some listing)
         | GetReportsContent j i \<Rightarrow> content),
       float_str = (\<lambda>r. ''25000.0'') \<rparr>"

text \<open>Four providers: what they answer for job \<open>j1\<close> differs as their names say.\<close>

definition world_unknown_schema :: world where
  "world_unknown_schema = provider attrs_hookload listing1 (Resp 200 (Some content_unknown))"

definition world_no_channel :: world where
  "world_no_channel = provider attrs_none listing1 (Resp 500 None)"

definition world_no_report :: world where
  "world_no_report = provider attrs_hookload listing_empty (Resp 500 None)"

definition world_empty_content :: world where
  "world_empty_content = provider attrs_hookload listing1 (Resp 500 None)"

text \<open>\<open>str(report)\<close> of a payload whose only marker is ScanMorningReport.\<close>

definition scan_payload :: string where
  "scan_payload =
     ''[{'' @ [CHR 0x27] @ ''Reports'' @ [CHR 0x27] @ '': [{'' @ [CHR 0x27]
       @ ''ScanMorningReport'' @ [CHR 0x27] @ '': {}}]}]''"

section \<open>Properties\<close>

lemma bind_Inl [simp]: "bind (Inl e) f = Inl e"
  by (simp add: bind_def)

lemma bind_Inr [simp]: "bind (Inr x) f = f x"
  by (simp add: bind_def)

lemma str_contains_sublist: "str_contains needle hay = sublist needle hay"
  by (induction hay) (auto simp: sublist_Cons_right)

lemma status_never_equals_range: "\<not> status_eq_range c"
  by (simp add: status_eq_range_def)

text \<open>
  C5, as stated, fails: with status 500 the branch that sleeps and sends the second
  request is entered in getApiCall, and with status 404 in postApiCall.
\<close>

theorem C5_retry_branch_entered_at_500:
  "getApiCall_retry_entered 500 \<and> postApiCall_retry_entered 404"
  by (simp add: getApiCall_retry_entered_def getApiCall_retry_cond_def
      postApiCall_retry_entered_def postApiCall_retry_cond_def
      py_or_def py_and_def status_eq_range_def range_len_def)

text \<open>
  C5, amended: the comparison \<open>status_code == range(...)\<close> is false for every status
  code, but the trailing \<open>or 400\<close> (getApiCall) and \<open>or range(400, 410, 1)\<close>
  (postApiCall) make the whole condition truthy, so the retry branch is entered exactly
  when the first response's status is not 200.
\<close>

theorem C5_retry_branch_entered_iff_not_200:
  "status_eq_range c = False
   \<and> getApiCall_retry_entered c = (c \<noteq> 200)
   \<and> postApiCall_retry_entered c = (c \<noteq> 200)"
  by (simp add: getApiCall_retry_entered_def getApiCall_retry_cond_def
      postApiCall_retry_entered_def postApiCall_retry_cond_def
      py_or_def py_and_def status_eq_range_def range_len_def)

subsection \<open>Schema dispatch\<close>

lemma all_schema:
  "(\<forall>k. P k) =
     (P GenericAmericanMorningReportDW \<and> P HandPMorningReport \<and> P ScanMorningReport
      \<and> P RapadMorningReport \<and> P PattersonMorningReportRevB)"
  by (metis schema.exhaust)

text \<open>
  C6: the chain takes the unrecognized branch exactly when no marker occurs in the
  serialized payload; a branch that is taken has its marker in the payload; and a
  payload with exactly one marker takes that marker's branch. The chain is a function
  of the payload, so every payload takes one path and no more.
\<close>

theorem C6_schema_dispatch:
  "(schema_dispatch s = None \<longleftrightarrow> (\<forall>k. \<not> str_contains (marker k) s))
   \<and> (\<forall>k. schema_dispatch s = Some k \<longrightarrow> str_contains (marker k) s)
   \<and> (\<forall>k. str_contains (marker k) s \<and> (\<forall>k'. k' \<noteq> k \<longrightarrow> \<not> str_contains (marker k') s)
          \<longrightarrow> schema_dispatch s = Some k)"
  by (simp add: all_schema schema_dispatch_def)

theorem C6_schema_dispatch_witness:
  "str_contains (marker ScanMorningReport) scan_payload
   \<and> \<not> str_contains (marker GenericAmericanMorningReportDW) scan_payload
   \<and> \<not> str_contains (marker HandPMorningReport) scan_payload
   \<and> \<not> str_contains (marker RapadMorningReport) scan_payload
   \<and> \<not> str_contains (marker PattersonMorningReportRevB) scan_payload
   \<and> schema_dispatch scan_payload = Some ScanMorningReport"
proof -
  have h: "str_contains (marker ScanMorningReport) scan_payload
     \<and> (\<forall>k'. k' \<noteq> ScanMorningReport \<longrightarrow> \<not> str_contains (marker k') scan_payload)"
    by (simp add: all_schema scan_payload_def)
  with C6_schema_dispatch [of scan_payload] have "schema_dispatch scan_payload = Some ScanMorningReport"
    by blast
  with h show ?thesis by (simp add: all_schema)
qed

lemma scan_payload_is_str:
  "py_str fs (JArr [JObj [(''Reports'', JArr [JObj [(''ScanMorningReport'', JObj [])]])]])
     = scan_payload"
  by (simp add: py_str_def repr_str_def repr_char_def printable_def scan_payload_def Let_def)

subsection \<open>Channel classification\<close>

text \<open>
  The rule of the twelve channels that test \<open>float\<close> or \<open>int\<close>: a number is classified
  by its sign, anything else leaves the status as it is (MISSING at the start).
\<close>

lemma float_or_int_rule:
  "float_or_int zero_first v cur =
     (case num_of v of
        None \<Rightarrow> cur
      | Some x \<Rightarrow> if x > 0 then emoji_check else if x = 0 then emoji_exclamation else emoji_x)"
  "float_or_int positive_first v cur =
     (case num_of v of
        None \<Rightarrow> cur
      | Some x \<Rightarrow> if x > 0 then emoji_check else if x = 0 then emoji_exclamation else emoji_x)"
  by (cases v; simp add: float_or_int_def zero_first_def positive_first_def)+

text \<open>
  C1 at the failing input: a snapshot with RotaryTorque \<open>12.5\<close>, a float. The status
  stays MISSING, where the same value is OK for HookLoad and the integer \<open>12\<close> is OK for
  RotaryTorque.
\<close>

theorem C1_rotary_torque_float_stays_missing:
  "RotaryTorquebool (classify [(JStr ''RotaryTorque'', JFloat 12.5)] init_locals) = emoji_x
   \<and> HookLoadbool (classify [(JStr ''HookLoad'', JFloat 12.5)] init_locals) = emoji_check
   \<and> RotaryTorquebool (classify [(JStr ''RotaryTorque'', JInt 12)] init_locals) = emoji_check"
  by (simp add: classify_def classify_item_def when_key_def int_only_def float_or_int_def
      init_locals_def zero_first_def positive_first_def emoji_x_def emoji_check_def)

subsection \<open>What each step does to the lists of the run\<close>

lemma get_with_retry_sent:
  "snd (get_with_retry cond ok W req s) = s @ [req]
   \<or> snd (get_with_retry cond ok W req s) = s @ [req, req]"
  by (simp add: get_with_retry_def split: http_result.splits)

lemma get_with_retry_ext:
  "get_with_retry cond ok W req s = (x, s') \<Longrightarrow> \<exists>ext. s' = s @ req # ext"
  using get_with_retry_sent [of cond ok W req s] by auto

lemma historical_ext:
  "historical_data_time W req n s = (x, s') \<Longrightarrow> \<exists>ext. s' = s @ ext"
proof (induction n arbitrary: s)
  case 0
  then show ?case by simp
next
  case (Suc n)
  then show ?case
    by (fastforce split: http_result.splits option.splits)
qed

lemma holder_shape: "holder_of fs job L = Inr holder \<Longrightarrow> row_shape holder"
  by (auto simp: holder_of_def bind_def row_shape_def header_def is_str_cell_def
      is_int_cell_def split: sum.splits)

lemma append_row_effect:
  assumes "append_row W well L st = (res, st')"
  shows "(\<exists>ext. sent st' = sent st @ ext)
    \<and> ZeroReportList st' = ZeroReportList st
    \<and> processedJobList st' = processedJobList st
    \<and> (res \<noteq> None \<longrightarrow> RAEJobs st' = RAEJobs st)
    \<and> (res = None \<longrightarrow> (\<exists>row. row_shape row \<and> RAEJobs st' = RAEJobs st @ [row]))"
  using assms
  by (auto simp: append_row_def getJobs_id_def split: prod.splits sum.splits
      dest: holder_shape get_with_retry_ext)

lemma getReports_ext:
  "getReports W well rid s = (x, s') \<Longrightarrow> \<exists>ext. s' = s @ ext"
  by (auto simp: getReports_def getReports_list_def getReports_content_def
      split: option.splits if_splits dest: get_with_retry_ext)

lemma report_phase_effect:
  assumes "report_phase W well L st = (res, st')"
  shows "(\<exists>ext. sent st' = sent st @ ext)
    \<and> (res \<noteq> None \<longrightarrow> RAEJobs st' = RAEJobs st)
    \<and> (res = None \<longrightarrow>
          (\<exists>row. row_shape row \<and> RAEJobs st' = RAEJobs st @ [row])
          \<or> (RAEJobs st' = RAEJobs st
              \<and> (py_in_list well (ZeroReportList st)
                  \<or> (\<exists>p. processedJobList st' = processedJobList st @ [(well, p)]))))"
  using assms
  apply (simp add: report_phase_def Let_def split: prod.splits if_splits sum.splits option.splits)
  apply (auto dest!: append_row_effect getReports_ext)
  done

lemma process_job_effect:
  assumes "process_job W w st = (res, st')"
  shows "(\<exists>ext. sent st' = sent st @ ext)
    \<and> (res \<noteq> None \<longrightarrow> RAEJobs st' = RAEJobs st)
    \<and> (res = None \<longrightarrow>
          (\<exists>row. row_shape row \<and> RAEJobs st' = RAEJobs st @ [row])
          \<or> (RAEJobs st' = RAEJobs st
              \<and> (\<exists>well. getitem w ''id'' = Inr well
                    \<and> (py_in_list well (ZeroReportList st)
                        \<or> (\<exists>p. processedJobList st' = processedJobList st @ [(well, p)])))))"
  using assms
  apply (simp add: process_job_def Let_def getApiCall_def
      split: prod.splits if_splits sum.splits option.splits)
  apply (auto dest!: append_row_effect report_phase_effect get_with_retry_ext historical_ext)
  done

subsection \<open>Rows per job\<close>

text \<open>
  C3, as stated, fails: a run over one job whose report payload has none of the five
  markers ends without an exception and with no row; and a run that meets twice a job
  without report ends with one row for the two encounters.
\<close>

theorem C3_counterexample:
  "fst (run_loop world_unknown_schema [job1] init_state) = None
   \<and> RAEJobs (snd (run_loop world_unknown_schema [job1] init_state)) = []
   \<and> fst (run_loop world_no_report [job1, job1] init_state) = None
   \<and> length (RAEJobs (snd (run_loop world_no_report [job1, job1] init_state))) = 1"
  by code_simp

text \<open>
  C3, amended: a job appends at most one row, at the end of the output, so the rows are
  in the order of the loop. A job that raises appends none. A job that ends normally
  appends exactly one, or none in two cases: its id is already in the zero-report list,
  or its report matched no marker and went to the list of unrecognized jobs instead.
\<close>

theorem C3_rows_per_job:
  assumes "process_job W w st = (res, st')"
  shows "(res \<noteq> None \<longrightarrow> RAEJobs st' = RAEJobs st)
    \<and> (res = None \<longrightarrow>
          (\<exists>row. RAEJobs st' = RAEJobs st @ [row])
          \<or> (RAEJobs st' = RAEJobs st
              \<and> (\<exists>well. getitem w ''id'' = Inr well
                    \<and> (py_in_list well (ZeroReportList st)
                        \<or> (\<exists>p. processedJobList st' = processedJobList st @ [(well, p)])))))"
  using process_job_effect [OF assms] by blast

text \<open>The theorem at a job without selected channels: one row.\<close>

theorem C3_rows_per_job_witness:
  "fst (process_job world_no_channel job1 init_state) = None
   \<and> length (RAEJobs (snd (process_job world_no_channel job1 init_state))) = 1"
proof -
  have h: "process_job world_no_channel job1 init_state
     = (fst (process_job world_no_channel job1 init_state), snd (process_job world_no_channel job1 init_state))"
    by simp
  have n: "fst (process_job world_no_channel job1 init_state) = None" by code_simp
  have z: "ZeroReportList init_state = []" "RAEJobs init_state = []" "processedJobList init_state = []"
    by (simp_all add: init_state_def)
  have p: "processedJobList (snd (process_job world_no_channel job1 init_state)) = []" by code_simp
  from C3_rows_per_job [OF h] n z p show ?thesis
    by (auto simp: py_in_list_def)
qed

subsection \<open>The shape of the rows\<close>

lemma run_loop_rows:
  "list_all row_shape (RAEJobs st) \<Longrightarrow> list_all row_shape (RAEJobs (snd (run_loop W jobs st)))"
proof (induction jobs arbitrary: st)
  case Nil
  then show ?case by simp
next
  case (Cons w ws)
  obtain res st' where p: "process_job W w st = (res, st')" by (cases "process_job W w st")
  from process_job_effect [OF p] Cons.prems have "list_all row_shape (RAEJobs st')"
    by (cases res) auto
  with Cons.IH [of st'] p show ?case by (cases res) auto
qed

text \<open>
  C9: every row of every run, from whichever of the three places it was appended, has
  the 26 cells of the 26-name header: four identity cells, three strings, thirteen
  integers, two strings, four report cells.
\<close>

theorem C9_rows_have_header_shape:
  "list_all row_shape (RAEJobs (snd (run_loop W jobs init_state))) \<and> length header = 26"
  using run_loop_rows [of init_state W jobs] by (simp add: init_state_def header_def)

text \<open>The cells after the identity, in the order of the header, variable by variable.\<close>

lemma holder_columns:
  assumes "holder_of fs job L = Inr row"
  shows "map (\<lambda>i. row ! i) [4 ..< 26] =
     [JStr (py_str fs (Iadc_Rig_val L)), JStr (py_str fs (Iadc2_Rig_val L)),
      JStr (py_str fs (Iadc3_Rig_val L)),
      JInt (HookLoadbool L), JInt (PumpPressurebool L), JInt (BlockHeightbool L),
      JInt (PumpSpmbool L), JInt (PumpSpm2bool L), JInt (PumpSpm3bool L),
      JInt (RotaryTorquebool L), JInt (tpDriveRPM L), JInt (tpDriveTorq L),
      JInt (weightonBit L), JInt (RP_Fast L), JInt (tHookLoad L), JInt (BitPositionbool L),
      JStr (py_str fs (BitStatusbool L)), JStr (py_str fs (SlipStatusbool L)),
      comment L, comment24 L, reportID L, reportDate L]"
  using assms
  by (auto simp: holder_of_def bind_def upt_rec split: sum.splits)

subsection \<open>The report step\<close>

lemma dispatch_empty_list: "schema_dispatch (py_str fs (JArr [])) = None"
  by (simp add: py_str_def schema_dispatch_def)

text \<open>
  C10: at the report step of a job that is not in the zero-report list, when the listing
  is not empty and the request for the content of its first entry returns the empty
  list, the step ends with IndexError: the job id has been appended to the zero-report
  list, \<open>str([])\<close> holds no marker, and the final \<open>else\<close> reads \<open>report[0]\<close>. No
  row is appended, and \<open>run_loop\<close> stops at the exception.
\<close>

theorem C10_empty_content_raises:
  assumes "\<not> py_in_list well (ZeroReportList st)"
    and "getReports W well None (sent st) = (r, s1)"
    and "py_len r \<noteq> Inr 0"
    and "bind (getindex r 0) (\<lambda>r0. getitem r0 ''id'') = Inr rid"
    and "getReports W well (Some rid) s1 = (JArr [], s2)"
  shows "report_phase W well L st =
     (Some IndexError,
      st\<lparr>sent := s2, MR_Report_Ids := MR_Report_Ids st @ [(well, r)],
         ZeroReportList := ZeroReportList st @ [well]\<rparr>)"
  using assms
  by (simp add: report_phase_def Let_def dispatch_empty_list py_len_def getindex_def)

text \<open>The theorem at a provider that answers the content request with status 500.\<close>

theorem C10_empty_content_raises_witness:
  "\<not> py_in_list (JStr ''j1'') (ZeroReportList init_state)
   \<and> getReports world_empty_content (JStr ''j1'') None (sent init_state)
       = (JArr [JObj [(''id'', JInt 77), (''date'', JStr ''2024-01-10'')]], [GetReportsList ''j1''])
   \<and> getReports world_empty_content (JStr ''j1'') (Some (JInt 77)) [GetReportsList ''j1'']
       = (JArr [], [GetReportsList ''j1'', GetReportsContent ''j1'' (Some ''77''),
                    GetReportsContent ''j1'' (Some ''77'')])
   \<and> fst (report_phase world_empty_content (JStr ''j1'') init_locals init_state) = Some IndexError
   \<and> RAEJobs (snd (report_phase world_empty_content (JStr ''j1'') init_locals init_state)) = []
   \<and> ZeroReportList (snd (report_phase world_empty_content (JStr ''j1'') init_locals init_state))
       = [JStr ''j1'']"
proof -
  let ?r = "JArr [JObj [(''id'', JInt 77), (''date'', JStr ''2024-01-10'')]]"
  have h1: "\<not> py_in_list (JStr ''j1'') (ZeroReportList init_state)"
    by (simp add: init_state_def py_in_list_def)
  have h2: "getReports world_empty_content (JStr ''j1'') None (sent init_state)
       = (?r, [GetReportsList ''j1''])"
    by code_simp
  have h3: "py_len ?r \<noteq> Inr 0" by (simp add: py_len_def)
  have h4: "bind (getindex ?r 0) (\<lambda>r0. getitem r0 ''id'') = Inr (JInt 77)"
    by (simp add: getindex_def getitem_def)
  have h5: "getReports world_empty_content (JStr ''j1'') (Some (JInt 77)) [GetReportsList ''j1'']
       = (JArr [], [GetReportsList ''j1'', GetReportsContent ''j1'' (Some ''77''),
                    GetReportsContent ''j1'' (Some ''77'')])"
    by code_simp
  from C10_empty_content_raises [OF h1 h2 h3 h4 h5, of init_locals] h1 h2 h5
  show ?thesis by (simp add: init_state_def)
qed

text \<open>A well-formed value equals itself, so an id that was appended is found again.\<close>

lemma py_eq_refl: "wf_json x \<Longrightarrow> py_eq x x"
proof (induction x)
  case (JArr xs)
  then show ?case by (auto simp: list_all2_same list_all_iff)
next
  case (JObj kvs)
  then show ?case by (fastforce simp: list_all_iff)
qed simp_all

text \<open>
  C7, as stated, fails: in a run that meets job \<open>j1\<close> twice, the second encounter
  requests the report listing again although the job is in the zero-report list.
\<close>

theorem C7_counterexample:
  "ZeroReportList (snd (run_loop world_no_report [job1] init_state)) = [JStr ''j1'']
   \<and> count_list (sent (snd (run_loop world_no_report [job1] init_state))) (GetReportsList ''j1'') = 1
   \<and> count_list (sent (snd (run_loop world_no_report [job1, job1] init_state))) (GetReportsList ''j1'') = 2"
  by code_simp

lemma getReports_list_request:
  "getReports W well None s = (x, s')
   \<Longrightarrow> \<exists>ext. s' = s @ GetReportsList (getReports_text (float_str W) well) # ext"
  by (auto simp: getReports_def getReports_list_def dest: get_with_retry_ext)

text \<open>
  C7, amended: when the listing of a job returns no entry, the listing has been
  requested, on every encounter (line 693 comes before the membership test). If the id
  is already in the zero-report list the step ends there: nothing is appended to the
  list, no further request, no row. Otherwise the id is appended once, the comment is
  \<open>no morning report\<close>, and the row is built with it.
\<close>

theorem C7_zero_report_listing:
  assumes "getReports W well None (sent st) = (JArr [], s1)"
  shows "(\<exists>ext. s1 = sent st @ GetReportsList (getReports_text (float_str W) well) # ext)
    \<and> (py_in_list well (ZeroReportList st) \<longrightarrow>
         report_phase W well L st =
           (None, st\<lparr>sent := s1, MR_Report_Ids := MR_Report_Ids st @ [(well, JArr [])]\<rparr>))
    \<and> (\<not> py_in_list well (ZeroReportList st) \<longrightarrow>
         report_phase W well L st =
           append_row W well (L\<lparr>comment := JStr ''no morning report''\<rparr>)
             (st\<lparr>sent := s1, MR_Report_Ids := MR_Report_Ids st @ [(well, JArr [])],
                 ZeroReportList := ZeroReportList st @ [well]\<rparr>))
    \<and> ZeroReportList (snd (report_phase W well L st)) =
         (if py_in_list well (ZeroReportList st) then ZeroReportList st
          else ZeroReportList st @ [well])"
proof -
  have a: "\<exists>ext. s1 = sent st @ GetReportsList (getReports_text (float_str W) well) # ext"
    using getReports_list_request [OF assms] .
  have b: "py_in_list well (ZeroReportList st) \<Longrightarrow>
         report_phase W well L st =
           (None, st\<lparr>sent := s1, MR_Report_Ids := MR_Report_Ids st @ [(well, JArr [])]\<rparr>)"
    using assms by (simp add: report_phase_def Let_def)
  have c: "\<not> py_in_list well (ZeroReportList st) \<Longrightarrow>
         report_phase W well L st =
           append_row W well (L\<lparr>comment := JStr ''no morning report''\<rparr>)
             (st\<lparr>sent := s1, MR_Report_Ids := MR_Report_Ids st @ [(well, JArr [])],
                 ZeroReportList := ZeroReportList st @ [well]\<rparr>)"
    using assms by (simp add: report_phase_def Let_def py_len_def)
  have d: "ZeroReportList (snd (report_phase W well L st)) =
         (if py_in_list well (ZeroReportList st) then ZeroReportList st
          else ZeroReportList st @ [well])"
  proof (cases "py_in_list well (ZeroReportList st)")
    case True
    with b show ?thesis by simp
  next
    case False
    obtain res st' where e: "append_row W well (L\<lparr>comment := JStr ''no morning report''\<rparr>)
             (st\<lparr>sent := s1, MR_Report_Ids := MR_Report_Ids st @ [(well, JArr [])],
                 ZeroReportList := ZeroReportList st @ [well]\<rparr>) = (res, st')"
      by (cases "append_row W well (L\<lparr>comment := JStr ''no morning report''\<rparr>)
             (st\<lparr>sent := s1, MR_Report_Ids := MR_Report_Ids st @ [(well, JArr [])],
                 ZeroReportList := ZeroReportList st @ [well]\<rparr>)")
    from append_row_effect [OF e] c [OF False] e False show ?thesis by simp
  qed
  from a b c d show ?thesis by blast
qed

text \<open>The theorem at the first and at a later encounter of job \<open>j1\<close>.\<close>

theorem C7_zero_report_listing_witness:
  "getReports world_no_report (JStr ''j1'') None (sent init_state) = (JArr [], [GetReportsList ''j1''])
   \<and> \<not> py_in_list (JStr ''j1'') (ZeroReportList init_state)
   \<and> ZeroReportList (snd (report_phase world_no_report (JStr ''j1'') init_locals init_state))
       = [JStr ''j1'']
   \<and> py_in_list (JStr ''j1'') [JStr ''j1'']
   \<and> report_phase world_no_report (JStr ''j1'') init_locals
        (init_state\<lparr>ZeroReportList := [JStr ''j1'']\<rparr>)
       = (None, init_state\<lparr>ZeroReportList := [JStr ''j1''], sent := [GetReportsList ''j1''],
                          MR_Report_Ids := [(JStr ''j1'', JArr [])]\<rparr>)"
proof -
  have h: "getReports world_no_report (JStr ''j1'') None (sent init_state)
      = (JArr [], [GetReportsList ''j1''])"
    by code_simp
  have n: "\<not> py_in_list (JStr ''j1'') (ZeroReportList init_state)"
    by (simp add: init_state_def py_in_list_def)
  have h': "getReports world_no_report (JStr ''j1'') None
       (sent (init_state\<lparr>ZeroReportList := [JStr ''j1'']\<rparr>))
      = (JArr [], [GetReportsList ''j1''])"
    using h by simp
  have y: "py_in_list (JStr ''j1'') [JStr ''j1'']" by (simp add: py_in_list_def)
  from C7_zero_report_listing [OF h, of init_locals]
  have "ZeroReportList (snd (report_phase world_no_report (JStr ''j1'') init_locals init_state)) =
         (if py_in_list (JStr ''j1'') (ZeroReportList init_state) then ZeroReportList init_state
          else ZeroReportList init_state @ [JStr ''j1''])"
    by blast
  with n have z: "ZeroReportList (snd (report_phase world_no_report (JStr ''j1'') init_locals init_state))
       = [JStr ''j1'']"
    by (simp add: init_state_def)
  from C7_zero_report_listing [OF h', of init_locals] y
  have "report_phase world_no_report (JStr ''j1'') init_locals
        (init_state\<lparr>ZeroReportList := [JStr ''j1'']\<rparr>)
       = (None, init_state\<lparr>ZeroReportList := [JStr ''j1''], sent := [GetReportsList ''j1''],
                          MR_Report_Ids := [(JStr ''j1'', JArr [])]\<rparr>)"
    by (simp add: init_state_def)
  with h n y z show ?thesis by simp
qed

subsection \<open>The jobs of the loop\<close>

text \<open>
  C2, as stated, fails: with the allow-list \<open>Rig 9\<close> and the single job of
  \<open>Rig 7\<close>, no job id is selected, and the loop processes the job into a row.
\<close>

theorem C2_counterexample:
  "tmpJobs (float_str world_no_channel) [''Rig 9''] [job1] = Inr []
   \<and> fst (run_loop world_no_channel [job1] init_state) = None
   \<and> length (RAEJobs (snd (run_loop world_no_channel [job1] init_state))) = 1"
  by code_simp

lemma process_job_first_request:
  assumes "process_job W w st = (None, st')"
  shows "\<exists>well ext. getitem w ''id'' = Inr well
      \<and> sent st' = sent st @ GetJobsIdCapabilities (py_str (float_str W) well) # ext"
  using assms
  apply (simp add: process_job_def Let_def getApiCall_def
      split: prod.splits if_splits sum.splits option.splits)
  apply (auto dest!: append_row_effect report_phase_effect get_with_retry_ext historical_ext)
  done

lemma run_loop_sent:
  "run_loop W jobs st = (res, st') \<Longrightarrow> \<exists>ext. sent st' = sent st @ ext"
proof (induction jobs arbitrary: st)
  case Nil
  then show ?case by simp
next
  case (Cons w ws)
  obtain r1 st1 where p: "process_job W w st = (r1, st1)" by (cases "process_job W w st")
  from process_job_effect [OF p] obtain e1 where e1: "sent st1 = sent st @ e1" by blast
  show ?case
  proof (cases r1)
    case None
    with Cons.prems p have "run_loop W ws st1 = (res, st')" by simp
    from Cons.IH [OF this] e1 show ?thesis by auto
  next
    case (Some e)
    with Cons.prems p e1 show ?thesis by auto
  qed
qed

lemma run_loop_visits:
  "run_loop W jobs st = (None, st') \<Longrightarrow> w \<in> set jobs
   \<Longrightarrow> \<exists>well. getitem w ''id'' = Inr well
         \<and> GetJobsIdCapabilities (py_str (float_str W) well) \<in> set (sent st')"
proof (induction jobs arbitrary: st)
  case Nil
  then show ?case by simp
next
  case (Cons j js)
  obtain r1 st1 where p: "process_job W j st = (r1, st1)" by (cases "process_job W j st")
  with Cons.prems have r1: "r1 = None" by (cases r1) auto
  with Cons.prems p have rest: "run_loop W js st1 = (None, st')" by simp
  show ?case
  proof (cases "w = j")
    case True
    from process_job_first_request [OF p [unfolded r1]] obtain well ext where
      f: "getitem j ''id'' = Inr well"
         "sent st1 = sent st @ GetJobsIdCapabilities (py_str (float_str W) well) # ext"
      by blast
    from run_loop_sent [OF rest] f True show ?thesis by auto
  next
    case False
    with Cons.prems have "w \<in> set js" by simp
    from Cons.IH [OF rest this] show ?thesis .
  qed
qed

lemma select_jobs_concat:
  "select_jobs rigs lt = concat (map (\<lambda>w. map snd (filter (\<lambda>kv. sublist w (fst kv)) lt)) rigs)"
  by (induction rigs) (simp_all add: str_contains_sublist)

text \<open>
  C2, amended: \<open>tmpJobs\<close> is what the claim describes, for each configured name in
  turn the ids of the lookup keys that contain it; but it is only printed. The run is
  the same whatever the allow-list, and a loop that ends without exception has asked
  for the capabilities of every job of the listing.
\<close>

theorem C2_loop_runs_over_all_jobs:
  "main W RAE_Rigs tmpAllJobs = main W RAE_Rigs' tmpAllJobs
   \<and> (\<forall>lookup_table. build_lookup (float_str W) tmpAllJobs [] = Inr lookup_table \<longrightarrow>
        tmpJobs (float_str W) RAE_Rigs tmpAllJobs =
          Inr (concat (map (\<lambda>w. map snd (filter (\<lambda>kv. sublist w (fst kv)) lookup_table))
                 RAE_Rigs)))
   \<and> (\<forall>st' w. run_loop W tmpAllJobs init_state = (None, st') \<and> w \<in> set tmpAllJobs \<longrightarrow>
        (\<exists>well. getitem w ''id'' = Inr well
           \<and> GetJobsIdCapabilities (py_str (float_str W) well) \<in> set (sent st')))"
proof -
  have a: "main W RAE_Rigs tmpAllJobs = main W RAE_Rigs' tmpAllJobs"
    by (simp add: main_def tmpJobs_def bind_def split: sum.splits)
  have b: "\<forall>lookup_table. build_lookup (float_str W) tmpAllJobs [] = Inr lookup_table \<longrightarrow>
        tmpJobs (float_str W) RAE_Rigs tmpAllJobs =
          Inr (concat (map (\<lambda>w. map snd (filter (\<lambda>kv. sublist w (fst kv)) lookup_table))
                 RAE_Rigs))"
    by (simp add: tmpJobs_def select_jobs_concat)
  from a b run_loop_visits show ?thesis by blast
qed

text \<open>The theorem at the input of the counterexample.\<close>

theorem C2_loop_runs_over_all_jobs_witness:
  "build_lookup (float_str world_no_channel) [job1] [] = Inr [(''Acme Rig 7'', JStr ''j1'')]
   \<and> tmpJobs (float_str world_no_channel) [''Rig 9''] [job1] = Inr []
   \<and> fst (run_loop world_no_channel [job1] init_state) = None
   \<and> GetJobsIdCapabilities ''j1'' \<in> set (sent (snd (run_loop world_no_channel [job1] init_state)))"
proof -
  have l: "build_lookup (float_str world_no_channel) [job1] [] = Inr [(''Acme Rig 7'', JStr ''j1'')]"
    by code_simp
  have n: "fst (run_loop world_no_channel [job1] init_state) = None" by code_simp
  then have r: "run_loop world_no_channel [job1] init_state = (None, snd (run_loop world_no_channel [job1] init_state))"
    by (metis prod.collapse)
  have i: "getitem job1 ''id'' = Inr (JStr ''j1'')" by code_simp
  have t: "concat (map (\<lambda>w. map snd (filter (\<lambda>kv. sublist w (fst kv))
             [(''Acme Rig 7'', JStr ''j1'')])) [''Rig 9'']) = []"
    by (simp add: str_contains_sublist [symmetric])
  from C2_loop_runs_over_all_jobs [of world_no_channel "[''Rig 9'']" "[job1]" "[]"] l n r i t
  show ?thesis by (auto simp: py_str_def)
qed

subsection \<open>Failures\<close>

text \<open>
  C4 at the failing input: the attributes of job \<open>j2\<close> are answered with status 500
  twice. getApiCall returns the empty list, \<open>q[0]\<close> raises IndexError, the loop ends:
  no row for \<open>j2\<close>, and no request at all for the next job \<open>j1\<close>.
\<close>

theorem C4_attribute_failure_ends_the_loop:
  "run_loop world_no_channel [job2, job1] init_state =
     (Some IndexError,
      init_state\<lparr>sent := [GetJobsIdCapabilities ''j2'', GetAttributes ''j2'', GetAttributes ''j2'']\<rparr>)"
  by code_simp

text \<open>
  C8 at the failing input: job \<open>j1\<close> gets its row, job \<open>j2\<close> raises. No report
  comment was collected, so the script ends with IndexError at line 861 and the row of
  \<open>j1\<close> is neither written nor mailed.
\<close>

theorem C8_rows_lost_when_no_report_comment:
  "fst (run_loop world_no_channel [job1, job2] init_state) = Some IndexError
   \<and> length (RAEJobs (snd (run_loop world_no_channel [job1, job2] init_state))) = 1
   \<and> MR_Report_Comments (snd (run_loop world_no_channel [job1, job2] init_state)) = []
   \<and> main world_no_channel [] [job1, job2] = Inl IndexError"
  by code_simp

end
